theory Spec2Isabelle
  imports Main "HOL-Library.Word" "HOL-Library.AList"
begin

section \<open>Strings and object literals of the source language\<close>

text \<open>
  A JavaScript string is a sequence of UTF-16 code units, and \<open>===\<close> on two strings
  compares them unit by unit. ASCII literals of the source are written through \<open>js\<close>.
\<close>

type_synonym jsstring = "16 word list"

definition js :: "string \<Rightarrow> jsstring" where
  "js s = map of_char s"

text \<open>
  \<open>obj[key]\<close> on an object literal finds the literal's own properties first and then
  the properties every object inherits from \<open>Object.prototype\<close>. An inherited
  property is a function (or, for \<open>__proto__\<close>, the prototype object itself): it is
  truthy, it is not an array, and in a numeric comparison it converts to NaN. A key that
  is found nowhere gives \<open>undefined\<close>.
\<close>

datatype 'a js_prop = Own 'a | Inherited | Absent

definition objectPrototypeKeys :: "string list" where
  "objectPrototypeKeys =
     [''constructor'', ''hasOwnProperty'', ''isPrototypeOf'', ''propertyIsEnumerable'',
      ''toLocaleString'', ''toString'', ''valueOf'', ''__proto__'',
      ''__defineGetter__'', ''__defineSetter__'', ''__lookupGetter__'', ''__lookupSetter__'']"

definition getProp :: "(string \<times> 'a) list \<Rightarrow> jsstring \<Rightarrow> 'a js_prop" where
  "getProp obj key =
     (case map_of (map (\<lambda>(k, v). (js k, v)) obj) key of
        Some v \<Rightarrow> Own v
      | None \<Rightarrow> if List.member (map js objectPrototypeKeys) key then Inherited else Absent)"

section \<open>Retry policy (offline-queue.js)\<close>

text \<open>
  The strategy argument is a string or \<open>undefined\<close> (\<open>None\<close>); the default
  parameter value \<open>'standard'\<close> replaces \<open>undefined\<close> only.
\<close>

definition strategyOrDefault :: "jsstring option \<Rightarrow> jsstring" where
  "strategyOrDefault strategy = (case strategy of None \<Rightarrow> js ''standard'' | Some s \<Rightarrow> s)"

definition delays :: "(string \<times> nat list) list" where
  "delays =
     [(''conservative'', [1000, 2000, 4000]),
      (''standard'', [1000, 2000, 4000, 8000, 16000, 32000]),
      (''aggressive'', [1000, 1000, 2000, 2000, 4000, 8000, 16000, 32000, 60000, 120000])]"

text \<open>
  \<open>delays[strategy] || delays.standard\<close> falls back to the standard list only when the
  lookup is falsy, that is \<open>undefined\<close>. An array is indexed at
  \<open>Math.min(retryCount, length - 1)\<close>; reading an index that is not an element gives
  \<open>undefined\<close> (\<open>None\<close>), and so does indexing an inherited function or object.
\<close>

definition calculateRetryDelay :: "nat \<Rightarrow> jsstring option \<Rightarrow> nat option" where
  "calculateRetryDelay retryCount strategy =
     (let delayList =
            (case getProp delays (strategyOrDefault strategy) of
               Absent \<Rightarrow> getProp delays (js ''standard'')
             | found \<Rightarrow> found)
      in case delayList of
           Own l \<Rightarrow>
             (let index = min (int retryCount) (int (length l) - 1)
              in if 0 \<le> index \<and> index < int (length l) then Some (l ! nat index) else None)
         | Inherited \<Rightarrow> None
         | Absent \<Rightarrow> None)"

definition maxRetries :: "(string \<times> nat) list" where
  "maxRetries = [(''conservative'', 3), (''standard'', 6), (''aggressive'', 10)]"

text \<open>
  \<open>retryCount < (maxRetries[strategy] || 6)\<close>: a found number is used unless it is 0
  (falsy); an inherited function is truthy and compares as NaN, so the test is false.
\<close>

definition shouldRetry :: "nat \<Rightarrow> jsstring option \<Rightarrow> bool" where
  "shouldRetry retryCount strategy =
     (case getProp maxRetries (strategyOrDefault strategy) of
        Own m \<Rightarrow> retryCount < (if m = 0 then 6 else m)
      | Inherited \<Rightarrow> False
      | Absent \<Rightarrow> retryCount < 6)"

section \<open>Queue items, settings and the two stores (offline-queue.js)\<close>

datatype status = Pending | Retrying | Success | Failed

record queue_item =
  itemId :: nat
  content :: jsstring
  noteType :: nat
  tags :: jsstring
  url :: jsstring
  title :: jsstring
  status :: status
  createdAt :: int
  updatedAt :: int
  retryCount :: nat
  lastError :: jsstring
  metadata :: "(jsstring \<times> jsstring) list"

text \<open>
  The argument of \<open>enqueue\<close>. A field the caller leaves out reads as \<open>undefined\<close>,
  and \<open>item.type || 0\<close>, \<open>item.tags || ''\<close> and the like turn it into the falsy value
  of its type, so each optional field is modelled by its value with that default.
\<close>

record new_item =
  newContent :: jsstring
  newType :: nat
  newTags :: jsstring
  newUrl :: jsstring
  newTitle :: jsstring
  newMetadata :: "(jsstring \<times> jsstring) list"

record queue_settings =
  maxSize :: "nat option"
  autoRetry :: bool
  retryStrategy :: "jsstring option"
  successRetention :: nat
  failureNotification :: jsstring

text \<open>
  The state the module works on: the module variables \<open>db\<close> (true when the handle is
  set) and \<open>useFallback\<close>, the object store \<open>queue_items\<close> of IndexedDB (its records
  in key order, and the key generator of the auto-increment key path \<open>id\<close>), and the
  two keys of \<open>chrome.storage.local\<close>: \<open>offline_queue_fallback\<close> (absent reads as the
  empty array) and \<open>offline_queue_settings\<close>. \<open>idbOpens\<close> says whether
  \<open>indexedDB.open\<close> succeeds in this environment. Store requests that are issued
  complete with \<open>onsuccess\<close>, so the \<open>onerror\<close> handlers and the \<open>catch\<close> blocks
  around the store calls are not reached; calls run one after the other, each to
  completion; and a call reads the clock once (\<open>now\<close> stands for every \<open>Date.now()\<close>
  of the call). The limit \<open>maxSize\<close> and the counts are natural numbers.
\<close>

record world =
  idbOpens :: bool
  db :: bool
  useFallback :: bool
  idbRecords :: "queue_item list"
  idbKeyGen :: nat
  fallbackQueue :: "queue_item list"
  queueSettings :: "queue_settings option"

definition DEFAULT_MAX_QUEUE_SIZE :: nat where
  "DEFAULT_MAX_QUEUE_SIZE = 100"

definition initDB :: "world \<Rightarrow> world" where
  "initDB w =
     (if db w then w
      else if idbOpens w then w\<lparr>db := True\<rparr>
      else w\<lparr>useFallback := True\<rparr>)"

text \<open>
  Every store operation of the module starts the same way: the fallback when
  \<open>useFallback\<close> is set, otherwise \<open>initDB\<close> and then the fallback when there is
  still no handle, the object store otherwise.
\<close>

definition viaStore :: "(world \<Rightarrow> 'a) \<Rightarrow> (world \<Rightarrow> 'a) \<Rightarrow> world \<Rightarrow> 'a" where
  "viaStore onFallback onIndexedDB w =
     (if useFallback w then onFallback w
      else let w1 = initDB w
           in if \<not> db w1 then onFallback w1 else onIndexedDB w1)"

text \<open>
  \<open>items.sort((a, b) => b.createdAt - a.createdAt)\<close>: a stable sort, newest first.
  The status filter is \<open>'all'\<close> (\<open>None\<close>) or one status.
\<close>

definition sortNewestFirst :: "queue_item list \<Rightarrow> queue_item list" where
  "sortNewestFirst items = sort_key (\<lambda>item. - createdAt item) items"

definition filterStatus :: "status option \<Rightarrow> queue_item list \<Rightarrow> queue_item list" where
  "filterStatus statusFilter items =
     (case statusFilter of
        None \<Rightarrow> items
      | Some s \<Rightarrow> filter (\<lambda>item. status item = s) items)"

definition getQueueFallback :: "status option \<Rightarrow> world \<Rightarrow> queue_item list \<times> world" where
  "getQueueFallback statusFilter w =
     (sortNewestFirst (filterStatus statusFilter (fallbackQueue w)), w)"

definition getQueue :: "status option \<Rightarrow> world \<Rightarrow> queue_item list \<times> world" where
  "getQueue statusFilter =
     viaStore (getQueueFallback statusFilter)
       (\<lambda>w. (sortNewestFirst (filterStatus statusFilter (idbRecords w)), w))"

definition getQueueSize :: "world \<Rightarrow> nat \<times> world" where
  "getQueueSize w = (case getQueue None w of (queue, w1) \<Rightarrow> (length queue, w1))"

definition checkDuplicate :: "jsstring \<Rightarrow> int \<Rightarrow> world \<Rightarrow> bool \<times> world" where
  "checkDuplicate c now w =
     (case getQueue None w of
        (queue, w1) \<Rightarrow>
          (let fiveMinutes = 5 * 60 * 1000
           in (list_ex (\<lambda>item. content item = c \<and> now - createdAt item < fiveMinutes) queue, w1)))"

definition getMaxQueueSize :: "world \<Rightarrow> nat" where
  "getMaxQueueSize w =
     (case queueSettings w of
        None \<Rightarrow> DEFAULT_MAX_QUEUE_SIZE
      | Some settings \<Rightarrow>
          (case maxSize settings of
             None \<Rightarrow> DEFAULT_MAX_QUEUE_SIZE
           | Some m \<Rightarrow> if m = 0 then DEFAULT_MAX_QUEUE_SIZE else m))"

definition getQueueSettings :: "world \<Rightarrow> queue_settings" where
  "getQueueSettings w =
     (case queueSettings w of
        Some settings \<Rightarrow> settings
      | None \<Rightarrow>
          \<lparr>maxSize = Some 100, autoRetry = True, retryStrategy = Some (js ''standard''),
           successRetention = 180000, failureNotification = js ''final''\<rparr>)"

text \<open>
  The result of \<open>enqueue\<close>: \<open>{success: true, id}\<close>, or \<open>{success: false, message}\<close>
  with one of three messages: queue full (with the limit that was read), the note is
  already queued, and the fallback store's limit of 50.
\<close>

datatype enqueue_result =
  Enqueued nat | QueueFull nat | DuplicateNote | FallbackQueueFull

text \<open>
  The fallback store's id is \<open>Date.now() + Math.random()\<close>; the environment supplies
  it as \<open>freshId\<close>, and nothing makes it differ from the ids already stored.
\<close>

definition enqueueFallback :: "nat \<Rightarrow> queue_item \<Rightarrow> world \<Rightarrow> enqueue_result \<times> world" where
  "enqueueFallback freshId item w =
     (let queue = fallbackQueue w
      in if length queue \<ge> 50 then (FallbackQueueFull, w)
         else (Enqueued freshId, w\<lparr>fallbackQueue := queue @ [item\<lparr>itemId := freshId\<rparr>]\<rparr>))"

text \<open>
  \<open>store.add\<close> on the auto-increment store gives the record the next key. The record
  built by \<open>enqueue\<close> has no id yet; the field holds 0 until the store fills it in.
\<close>

definition idbAdd :: "queue_item \<Rightarrow> world \<Rightarrow> enqueue_result \<times> world" where
  "idbAdd item w =
     (Enqueued (idbKeyGen w),
      w\<lparr>idbRecords := idbRecords w @ [item\<lparr>itemId := idbKeyGen w\<rparr>],
        idbKeyGen := Suc (idbKeyGen w)\<rparr>)"

definition enqueue :: "int \<Rightarrow> nat \<Rightarrow> new_item \<Rightarrow> world \<Rightarrow> enqueue_result \<times> world" where
  "enqueue now freshId item w =
     (case getQueueSize w of
        (queueSize, w1) \<Rightarrow>
          (let maxSize = getMaxQueueSize w1
           in if queueSize \<ge> maxSize then (QueueFull maxSize, w1)
              else (case checkDuplicate (newContent item) now w1 of
                      (isDuplicate, w2) \<Rightarrow>
                        if isDuplicate then (DuplicateNote, w2)
                        else (let queueItem =
                                    \<lparr>itemId = 0, content = newContent item,
                                     noteType = newType item, tags = newTags item,
                                     url = newUrl item, title = newTitle item,
                                     status = Pending, createdAt = now, updatedAt = now,
                                     retryCount = 0, lastError = [],
                                     metadata = newMetadata item\<rparr>
                              in viaStore (enqueueFallback freshId queueItem)
                                   (idbAdd queueItem) w2))))"

definition dequeueFallback :: "nat \<Rightarrow> world \<Rightarrow> bool \<times> world" where
  "dequeueFallback i w =
     (True, w\<lparr>fallbackQueue := filter (\<lambda>item. itemId item \<noteq> i) (fallbackQueue w)\<rparr>)"

definition dequeue :: "nat \<Rightarrow> world \<Rightarrow> bool \<times> world" where
  "dequeue i =
     viaStore (dequeueFallback i)
       (\<lambda>w. (True, w\<lparr>idbRecords := filter (\<lambda>r. itemId r \<noteq> i) (idbRecords w)\<rparr>))"

text \<open>
  The patch given to \<open>updateItem\<close>: the callers set \<open>status\<close>, \<open>retryCount\<close> and
  \<open>lastError\<close>, each or not. \<open>Object.assign(item, updates, {updatedAt: Date.now()})\<close>
  writes the fields present and the time.
\<close>

record updates =
  newStatus :: "status option"
  newRetryCount :: "nat option"
  newLastError :: "jsstring option"

definition assignUpdates :: "queue_item \<Rightarrow> updates \<Rightarrow> int \<Rightarrow> queue_item" where
  "assignUpdates item u now =
     item\<lparr>status := (case newStatus u of None \<Rightarrow> status item | Some s \<Rightarrow> s),
          retryCount := (case newRetryCount u of None \<Rightarrow> retryCount item | Some n \<Rightarrow> n),
          lastError := (case newLastError u of None \<Rightarrow> lastError item | Some e \<Rightarrow> e),
          updatedAt := now\<rparr>"

text \<open>
  The fallback looks for the first element with the id (\<open>findIndex\<close>) and reports
  false when there is none.
\<close>

fun assignFirst :: "nat \<Rightarrow> updates \<Rightarrow> int \<Rightarrow> queue_item list \<Rightarrow> queue_item list option" where
  "assignFirst i u now [] = None"
| "assignFirst i u now (x # xs) =
     (if itemId x = i then Some (assignUpdates x u now # xs)
      else map_option ((#) x) (assignFirst i u now xs))"

definition updateItemFallback :: "nat \<Rightarrow> updates \<Rightarrow> int \<Rightarrow> world \<Rightarrow> bool \<times> world" where
  "updateItemFallback i u now w =
     (case assignFirst i u now (fallbackQueue w) of
        None \<Rightarrow> (False, w)
      | Some queue \<Rightarrow> (True, w\<lparr>fallbackQueue := queue\<rparr>))"

text \<open>
  The object store: \<open>store.get(id)\<close> reads the record under the key, \<open>store.put(item)\<close>
  replaces the record under the item's key.
\<close>

definition idbGet :: "nat \<Rightarrow> queue_item list \<Rightarrow> queue_item option" where
  "idbGet key records = find (\<lambda>r. itemId r = key) records"

fun idbPut :: "queue_item \<Rightarrow> queue_item list \<Rightarrow> queue_item list" where
  "idbPut item [] = [item]"
| "idbPut item (r # rs) =
     (if itemId r = itemId item then item # rs else r # idbPut item rs)"

definition updateItem :: "nat \<Rightarrow> updates \<Rightarrow> int \<Rightarrow> world \<Rightarrow> bool \<times> world" where
  "updateItem i u now =
     viaStore (updateItemFallback i u now)
       (\<lambda>w. case idbGet i (idbRecords w) of
               None \<Rightarrow> (False, w)
             | Some item \<Rightarrow>
                 (True, w\<lparr>idbRecords := idbPut (assignUpdates item u now) (idbRecords w)\<rparr>))"

section \<open>The retry orchestrator and its driver (background.js)\<close>

text \<open>
  What the delivery step of one invocation comes to: \<open>retryQueuedNote\<close> resolves with
  \<open>{success: true}\<close> or with \<open>{success: false, message}\<close>, or an exception escapes
  the step and lands in the \<open>catch\<close> of \<open>retryQueueItem\<close>.
\<close>

datatype delivery = Delivered | Refused jsstring | Thrown jsstring

text \<open>
  What an invocation does besides its writes to the store: the items it passed to
  \<open>retryQueuedNote\<close>, and the timer it set, if any:
  \<open>setTimeout(() => retryQueueItem(item), delay)\<close>, with the delay as computed
  (\<open>None\<close> for \<open>undefined\<close>) and the item the callback will pass.
\<close>

record retry_effects =
  delivered :: "queue_item list"
  timer :: "(nat option \<times> queue_item) option"

text \<open>
  The literal written to \<open>lastError\<close> when the retries are used up: eight CJK
  characters (in English: maximum number of retries reached), given by their code units.
\<close>

definition maxRetriesReached :: jsstring where
  "maxRetriesReached = [0x8FBE, 0x5230, 0x6700, 0x5927, 0x91CD, 0x8BD5, 0x6B21, 0x6570]"

text \<open>
  \<open>item\<close> is the object the caller holds. \<open>updateItem\<close> changes the stored record
  only (a structured clone in IndexedDB, a deserialised copy in the fallback), never
  \<open>item\<close>; the results of the \<open>updateItem\<close> calls are not looked at.
\<close>

definition retryQueueItem ::
  "int \<Rightarrow> delivery \<Rightarrow> queue_item \<Rightarrow> world \<Rightarrow> world \<times> retry_effects" where
  "retryQueueItem now outcome item w =
     (let settings = getQueueSettings w
      in if \<not> shouldRetry (retryCount item) (retryStrategy settings) then
           (snd (updateItem (itemId item)
                   \<lparr>newStatus = Some Failed, newRetryCount = None,
                    newLastError = Some maxRetriesReached\<rparr> now w),
            \<lparr>delivered = [], timer = None\<rparr>)
         else
           (let w1 = snd (updateItem (itemId item)
                            \<lparr>newStatus = Some Retrying, newRetryCount = None,
                             newLastError = None\<rparr> now w)
            in case outcome of
                 Delivered \<Rightarrow>
                   (snd (updateItem (itemId item)
                           \<lparr>newStatus = Some Success, newRetryCount = None,
                            newLastError = Some []\<rparr> now w1),
                    \<lparr>delivered = [item], timer = None\<rparr>)
               | Refused message \<Rightarrow>
                   (let newRetryCount = retryCount item + 1;
                        w2 = snd (updateItem (itemId item)
                                    \<lparr>newStatus = Some Pending,
                                     newRetryCount = Some newRetryCount,
                                     newLastError = Some message\<rparr> now w1);
                        delay = calculateRetryDelay newRetryCount (retryStrategy settings)
                    in (w2, \<lparr>delivered = [item], timer = Some (delay, item)\<rparr>))
               | Thrown message \<Rightarrow>
                   (snd (updateItem (itemId item)
                           \<lparr>newStatus = Some Failed, newRetryCount = None,
                            newLastError = Some message\<rparr> now w1),
                    \<lparr>delivered = [item], timer = None\<rparr>)))"

text \<open>
  The invocations that follow one another through the timer: each entry is the time at
  which an invocation runs and what its delivery comes to. The next invocation gets the
  item the timer's callback holds.
\<close>

fun retryChain :: "(int \<times> delivery) list \<Rightarrow> queue_item \<Rightarrow> world \<Rightarrow> world" where
  "retryChain [] item w = w"
| "retryChain ((now, outcome) # rest) item w =
     (case retryQueueItem now outcome item w of
        (w1, effects) \<Rightarrow>
          (case timer effects of
             None \<Rightarrow> w1
           | Some (delay, item1) \<Rightarrow> retryChain rest item1 w1))"

text \<open>
  \<open>processQueueOnStartup\<close> (run at start, every five minutes and when the network
  comes back): the items of the snapshot that are pending or retrying, one after the
  other. \<open>deliver\<close> says what the delivery of each item comes to.
\<close>

fun retryEach ::
  "int \<Rightarrow> (queue_item \<Rightarrow> delivery) \<Rightarrow> queue_item list \<Rightarrow> world
     \<Rightarrow> world \<times> retry_effects list" where
  "retryEach now deliver [] w = (w, [])"
| "retryEach now deliver (item # rest) w =
     (case retryQueueItem now (deliver item) item w of
        (w1, effects) \<Rightarrow>
          (case retryEach now deliver rest w1 of
             (w2, others) \<Rightarrow> (w2, effects # others)))"

definition processQueueOnStartup ::
  "int \<Rightarrow> (queue_item \<Rightarrow> delivery) \<Rightarrow> world \<Rightarrow> world \<times> retry_effects list" where
  "processQueueOnStartup now deliver w =
     (case getQueue None w of
        (queue, w1) \<Rightarrow>
          (let pendingItems =
                 filter (\<lambda>item. status item = Pending \<or> status item = Retrying) queue
           in retryEach now deliver pendingItems w1))"

section \<open>The caller of enqueue (api-client.js)\<close>

text \<open>
  \<open>String.prototype.trim\<close> removes the white space and line terminators of
  ECMAScript at both ends.
\<close>

definition isWhiteSpace :: "16 word \<Rightarrow> bool" where
  "isWhiteSpace c =
     List.member
       [0x0009, 0x000A, 0x000B, 0x000C, 0x000D, 0x0020, 0x00A0, 0x1680,
        0x2000, 0x2001, 0x2002, 0x2003, 0x2004, 0x2005, 0x2006, 0x2007, 0x2008, 0x2009,
        0x200A, 0x2028, 0x2029, 0x202F, 0x205F, 0x3000, 0xFEFF] c"

definition trim :: "jsstring \<Rightarrow> jsstring" where
  "trim s = rev (dropWhile isWhiteSpace (rev (dropWhile isWhiteSpace s)))"

fun decimal :: "nat \<Rightarrow> jsstring" where
  "decimal n =
     (if n < 10 then [of_nat (48 + n)]
      else decimal (n div 10) @ [of_nat (48 + n mod 10)])"

declare decimal.simps [simp del]

text \<open>
  The text recorded as \<open>initialError\<close> for a 5xx answer: five CJK characters (server
  error), a space and the status.
\<close>

definition serverErrorText :: "nat \<Rightarrow> jsstring" where
  "serverErrorText st = [0x670D, 0x52A1, 0x5668, 0x9519, 0x8BEF, 0x0020] @ decimal st"

text \<open>
  What \<open>fetch\<close> comes to: it throws, or it answers with a status and a body that
  \<open>response.json()\<close> parses (\<open>None\<close>) or rejects with a message.
\<close>

datatype fetch_outcome = FetchThrows jsstring | Responds nat "jsstring option"

text \<open>
  The results of \<open>createNote\<close>, one per message key it returns: no configuration,
  empty content, authorisation failed, saved, queued after a server error, queued after
  a network error, an HTTP status, a network error.
\<close>

datatype note_result =
  NoBlinkoConfig | EmptyContent | AuthFailedCheck | NoteSaved
  | QueuedServerError | QueuedNetworkError | SaveHttpStatus nat | NetworkError jsstring

definition tryEnqueueNote ::
  "jsstring \<Rightarrow> nat \<Rightarrow> (jsstring \<times> jsstring) list \<Rightarrow> jsstring \<Rightarrow> int \<Rightarrow> nat \<Rightarrow> world
     \<Rightarrow> bool \<times> world" where
  "tryEnqueueNote c ty md err now freshId w =
     (let settings = getQueueSettings w
      in if \<not> autoRetry settings then (False, w)
         else (case enqueue now freshId
                      \<lparr>newContent = c, newType = ty, newTags = [],
                       newUrl = (case map_of md (js ''url'') of None \<Rightarrow> [] | Some u \<Rightarrow> u),
                       newTitle = (case map_of md (js ''title'') of None \<Rightarrow> [] | Some t \<Rightarrow> t),
                       newMetadata = AList.update (js ''initialError'') err md\<rparr> w of
                 (Enqueued i, w1) \<Rightarrow> (True, w1)
               | (rejected, w1) \<Rightarrow> (False, w1)))"

definition createNote ::
  "jsstring \<Rightarrow> jsstring \<Rightarrow> jsstring \<Rightarrow> nat \<Rightarrow> (jsstring \<times> jsstring) list \<Rightarrow> fetch_outcome
     \<Rightarrow> int \<Rightarrow> nat \<Rightarrow> world \<Rightarrow> note_result \<times> world" where
  "createNote apiUrl token c ty md outcome now freshId w =
     (let onError = (\<lambda>message.
            case tryEnqueueNote c ty md message now freshId w of
              (queued, w1) \<Rightarrow>
                if queued then (QueuedNetworkError, w1) else (NetworkError message, w1))
      in if apiUrl = [] \<or> token = [] then (NoBlinkoConfig, w)
         else if c = [] \<or> trim c = [] then (EmptyContent, w)
         else (case outcome of
                 FetchThrows message \<Rightarrow> onError message
               | Responds st body \<Rightarrow>
                   if \<not> (200 \<le> st \<and> st \<le> 299) then
                     (if st = 401 \<or> st = 403 then (AuthFailedCheck, w)
                      else if st \<ge> 500 then
                        (case tryEnqueueNote c ty md (serverErrorText st) now freshId w of
                           (queued, w1) \<Rightarrow>
                             if queued then (QueuedServerError, w1)
                             else (SaveHttpStatus st, w1))
                      else (SaveHttpStatus st, w))
                   else (case body of
                           Some message \<Rightarrow> onError message
                         | None \<Rightarrow> (NoteSaved, w))))"

section \<open>Reading the model: the store in use and runs of calls\<close>

text \<open>
  The fallback is the store in use when \<open>useFallback\<close> is set, or when there is no
  handle and none can be opened; \<open>activeQueue\<close> is the content of the store in use,
  \<open>settled\<close> the state after the first steps every operation takes.
\<close>

definition fallbackActive :: "world \<Rightarrow> bool" where
  "fallbackActive w = (useFallback w \<or> (\<not> db w \<and> \<not> idbOpens w))"

definition activeQueue :: "world \<Rightarrow> queue_item list" where
  "activeQueue w = (if fallbackActive w then fallbackQueue w else idbRecords w)"

definition settled :: "world \<Rightarrow> world" where
  "settled w = (if useFallback w then w else initDB w)"

text \<open>A run of \<open>enqueue\<close> calls, each with its time, its fallback id and its item.\<close>

fun enqueueAll :: "(int \<times> nat \<times> new_item) list \<Rightarrow> world \<Rightarrow> world" where
  "enqueueAll [] w = w"
| "enqueueAll ((now, freshId, item) # calls) w =
     enqueueAll calls (snd (enqueue now freshId item w))"

definition isTerminal :: "queue_item \<Rightarrow> bool" where
  "isTerminal item = (status item = Success \<or> status item = Failed)"

text \<open>
  The record that \<open>store.get(i)\<close> or \<open>findIndex\<close> finds under an id in the store in
  use, the test that \<open>checkDuplicate\<close> makes on a queue, the record that \<open>enqueue\<close>
  builds, and the items a driver pass handed to the delivery function.
\<close>

definition stored :: "nat \<Rightarrow> world \<Rightarrow> queue_item option" where
  "stored i w = find (\<lambda>r. itemId r = i) (activeQueue w)"

definition recentDuplicate :: "jsstring \<Rightarrow> int \<Rightarrow> queue_item list \<Rightarrow> bool" where
  "recentDuplicate c now items =
     list_ex (\<lambda>item. content item = c \<and> now - createdAt item < 300000) items"

definition newQueueItem :: "int \<Rightarrow> new_item \<Rightarrow> queue_item" where
  "newQueueItem now item =
     \<lparr>itemId = 0, content = newContent item, noteType = newType item, tags = newTags item,
      url = newUrl item, title = newTitle item, status = Pending, createdAt = now,
      updatedAt = now, retryCount = 0, lastError = [], metadata = newMetadata item\<rparr>"

definition attempted :: "retry_effects list \<Rightarrow> queue_item list" where
  "attempted effects = concat (map delivered effects)"

section \<open>Concrete states and inputs\<close>

text \<open>
  A fresh installation (IndexedDB opens, nothing stored, no settings saved), a note with
  a content and nothing else, settings with a limit and a strategy, and a delivery that
  the server refuses with HTTP 500.
\<close>

definition emptyWorld :: world where
  "emptyWorld =
     \<lparr>idbOpens = True, db = False, useFallback = False, idbRecords = [], idbKeyGen = 1,
      fallbackQueue = [], queueSettings = None\<rparr>"

definition noteOf :: "jsstring \<Rightarrow> new_item" where
  "noteOf c =
     \<lparr>newContent = c, newType = 0, newTags = [], newUrl = [], newTitle = [],
      newMetadata = []\<rparr>"

definition settingsWith :: "nat \<Rightarrow> string \<Rightarrow> queue_settings" where
  "settingsWith m strategy =
     \<lparr>maxSize = Some m, autoRetry = True, retryStrategy = Some (js strategy),
      successRetention = 180000, failureNotification = js ''final''\<rparr>"

definition refusal :: delivery where
  "refusal = Refused (js ''HTTP 500'')"

definition alwaysRefused :: "queue_item \<Rightarrow> delivery" where
  "alwaysRefused item = refusal"

definition refusedPass :: "int \<Rightarrow> world \<Rightarrow> world" where
  "refusedPass now w = fst (processQueueOnStartup now alwaysRefused w)"

text \<open>
  The note \<open>x\<close> queued at time 1000 on a fresh installation: under the default
  settings, under the conservative strategy, and with a limit of one item. Its record
  is \<open>queuedX\<close>; \<open>retriedX\<close> is the record after one refused delivery at time 2000,
  \<open>thriceX\<close> after three (the last at time 8000), \<open>doneX\<close> after a delivery that
  succeeded at time 2000. \<open>refusedOnce\<close> is the state after a driver pass at time 2000
  whose delivery was refused, \<open>deliveredLater\<close> the state after a second driver pass
  at time 3000 whose delivery succeeded, and \<open>deliveredX\<close> the record it stored.
\<close>

definition queuedX :: queue_item where
  "queuedX =
     \<lparr>itemId = 1, content = js ''x'', noteType = 0, tags = [], url = [], title = [],
      status = Pending, createdAt = 1000, updatedAt = 1000, retryCount = 0, lastError = [],
      metadata = []\<rparr>"

definition retriedX :: queue_item where
  "retriedX = queuedX\<lparr>retryCount := 1, lastError := js ''HTTP 500'', updatedAt := 2000\<rparr>"

definition thriceX :: queue_item where
  "thriceX = queuedX\<lparr>retryCount := 3, lastError := js ''HTTP 500'', updatedAt := 8000\<rparr>"

definition doneX :: queue_item where
  "doneX = queuedX\<lparr>status := Success, updatedAt := 2000\<rparr>"

definition worldX :: world where
  "worldX = snd (enqueue 1000 0 (noteOf (js ''x'')) emptyWorld)"

definition conservativeWorld :: world where
  "conservativeWorld =
     snd (enqueue 1000 0 (noteOf (js ''x''))
            (emptyWorld\<lparr>queueSettings := Some (settingsWith 100 ''conservative'')\<rparr>))"

definition smallWorld :: world where
  "smallWorld =
     snd (enqueue 1000 0 (noteOf (js ''x''))
            (emptyWorld\<lparr>queueSettings := Some (settingsWith 1 ''standard'')\<rparr>))"

definition thriceRefused :: world where
  "thriceRefused = refusedPass 8000 (refusedPass 4000 (refusedPass 2000 conservativeWorld))"

definition worldDone :: world where
  "worldDone = fst (retryQueueItem 2000 Delivered queuedX worldX)"

definition worldTwo :: world where
  "worldTwo = snd (enqueue 5000 0 (noteOf (js ''y'')) worldDone)"

definition alwaysDelivered :: "queue_item \<Rightarrow> delivery" where
  "alwaysDelivered item = Delivered"

definition deliveredX :: queue_item where
  "deliveredX = retriedX\<lparr>status := Success, lastError := [], updatedAt := 3000\<rparr>"

definition refusedOnce :: world where
  "refusedOnce = fst (processQueueOnStartup 2000 alwaysRefused worldX)"

definition deliveredLater :: world where
  "deliveredLater = fst (processQueueOnStartup 3000 alwaysDelivered refusedOnce)"




section \<open>Properties of the retry policy\<close>

lemma getProp_delays_standard:
  "getProp delays (js ''standard'') = Own [1000, 2000, 4000, 8000, 16000, 32000]"
  by (simp add: getProp_def delays_def js_def)

lemma getProp_delays_conservative:
  "getProp delays (js ''conservative'') = Own [1000, 2000, 4000]"
  by (simp add: getProp_def delays_def js_def)

lemma getProp_delays_aggressive:
  "getProp delays (js ''aggressive'') =
     Own [1000, 1000, 2000, 2000, 4000, 8000, 16000, 32000, 60000, 120000]"
  by (simp add: getProp_def delays_def js_def)

lemma getProp_maxRetries_standard: "getProp maxRetries (js ''standard'') = Own 6"
  by (simp add: getProp_def maxRetries_def js_def)

lemma getProp_maxRetries_conservative: "getProp maxRetries (js ''conservative'') = Own 3"
  by (simp add: getProp_def maxRetries_def js_def)

lemma getProp_maxRetries_aggressive: "getProp maxRetries (js ''aggressive'') = Own 10"
  by (simp add: getProp_def maxRetries_def js_def)

lemma saturating_index:
  assumes "l \<noteq> []"
  shows "(let index = min (int a) (int (length l) - 1)
          in if 0 \<le> index \<and> index < int (length l) then Some (l ! nat index) else None)
         = Some (l ! min a (length l - 1))"
proof -
  from assms have pos: "0 < length l" by simp
  have "nat (min (int a) (int (length l) - 1)) = min a (length l - 1)"
    using pos by linarith
  moreover have "0 \<le> min (int a) (int (length l) - 1)"
    using pos by linarith
  moreover have "min (int a) (int (length l) - 1) < int (length l)"
    using pos by linarith
  ultimately show ?thesis by (simp add: Let_def)
qed

lemma calculateRetryDelay_named:
  assumes "getProp delays (strategyOrDefault strategy) = Own l" and "l \<noteq> []"
    and "length l - 1 = m"
  shows "calculateRetryDelay a strategy = Some (l ! min a m)"
  using saturating_index [OF assms(2), of a] assms(1) assms(3)
  by (simp add: calculateRetryDelay_def Let_def)

text \<open>
  C4. For every retry count \<open>n\<close>, \<open>shouldRetry\<close> is true exactly when \<open>n\<close> is below
  the strategy's maximum: 6 for standard (true on 0..5, false from 6 on), 3 for
  conservative, 10 for aggressive.
\<close>

theorem shouldRetry_bounds:
  "shouldRetry n (Some (js ''standard'')) = (n < 6) \<and>
   shouldRetry n (Some (js ''conservative'')) = (n < 3) \<and>
   shouldRetry n (Some (js ''aggressive'')) = (n < 10)"
  by (simp add: shouldRetry_def strategyOrDefault_def getProp_maxRetries_standard
      getProp_maxRetries_conservative getProp_maxRetries_aggressive)

theorem shouldRetry_bounds_witness:
  "shouldRetry 5 (Some (js ''standard'')) \<and> \<not> shouldRetry 6 (Some (js ''standard'')) \<and>
   shouldRetry 2 (Some (js ''conservative'')) \<and> \<not> shouldRetry 3 (Some (js ''conservative'')) \<and>
   shouldRetry 9 (Some (js ''aggressive'')) \<and> \<not> shouldRetry 10 (Some (js ''aggressive''))"
  using shouldRetry_bounds [of 5] shouldRetry_bounds [of 6] shouldRetry_bounds [of 2]
    shouldRetry_bounds [of 3] shouldRetry_bounds [of 9] shouldRetry_bounds [of 10]
  by simp

text \<open>
  C5. For every attempt index \<open>a\<close>, the delay under a named strategy is the strategy's
  delay list read at \<open>min a (length - 1)\<close>: it saturates at the last entry. For the
  standard strategy this is the list 1000, 2000, 4000, 8000, 16000, 32000 read at
  \<open>min a 5\<close>.
\<close>

theorem calculateRetryDelay_saturates:
  "calculateRetryDelay a (Some (js ''standard''))
     = Some ([1000, 2000, 4000, 8000, 16000, 32000] ! min a 5) \<and>
   calculateRetryDelay a (Some (js ''conservative''))
     = Some ([1000, 2000, 4000] ! min a 2) \<and>
   calculateRetryDelay a (Some (js ''aggressive''))
     = Some ([1000, 1000, 2000, 2000, 4000, 8000, 16000, 32000, 60000, 120000] ! min a 9)"
proof -
  have "calculateRetryDelay a (Some (js ''standard''))
          = Some ([1000, 2000, 4000, 8000, 16000, 32000] ! min a 5)"
    by (rule calculateRetryDelay_named)
      (simp_all add: strategyOrDefault_def getProp_delays_standard)
  moreover have "calculateRetryDelay a (Some (js ''conservative''))
          = Some ([1000, 2000, 4000] ! min a 2)"
    by (rule calculateRetryDelay_named)
      (simp_all add: strategyOrDefault_def getProp_delays_conservative)
  moreover have "calculateRetryDelay a (Some (js ''aggressive''))
          = Some ([1000, 1000, 2000, 2000, 4000, 8000, 16000, 32000, 60000, 120000] ! min a 9)"
    by (rule calculateRetryDelay_named)
      (simp_all add: strategyOrDefault_def getProp_delays_aggressive)
  ultimately show ?thesis by blast
qed

theorem calculateRetryDelay_saturates_witness:
  "calculateRetryDelay 0 (Some (js ''standard'')) = Some 1000 \<and>
   calculateRetryDelay 5 (Some (js ''standard'')) = Some 32000 \<and>
   calculateRetryDelay 400 (Some (js ''standard'')) = Some 32000 \<and>
   calculateRetryDelay 7 (Some (js ''conservative'')) = Some 4000 \<and>
   calculateRetryDelay 8 (Some (js ''aggressive'')) = Some 60000"
  using calculateRetryDelay_saturates [of 0] calculateRetryDelay_saturates [of 5]
    calculateRetryDelay_saturates [of 400] calculateRetryDelay_saturates [of 7]
    calculateRetryDelay_saturates [of 8]
  by simp

lemma unknown_strategy_as_standard:
  assumes "getProp delays s = Absent" and "getProp maxRetries s = Absent"
  shows "calculateRetryDelay a (Some s) = calculateRetryDelay a (Some (js ''standard'')) \<and>
         shouldRetry n (Some s) = shouldRetry n (Some (js ''standard''))"
  using assms
  by (simp add: calculateRetryDelay_def shouldRetry_def strategyOrDefault_def
      getProp_delays_standard getProp_maxRetries_standard)

lemma undefined_strategy_as_standard:
  "calculateRetryDelay a None = calculateRetryDelay a (Some (js ''standard'')) \<and>
   shouldRetry n None = shouldRetry n (Some (js ''standard''))"
  by (simp add: calculateRetryDelay_def shouldRetry_def strategyOrDefault_def)

text \<open>
  C10. A strategy string that names no strategy is meant to behave as the standard one,
  and does so for \<open>undefined\<close> and for every string that is neither a strategy name
  nor a property name inherited from \<open>Object.prototype\<close> (the two lemmas above). For
  an inherited name such as \<open>constructor\<close> the lookup finds a function, the fallback
  is skipped, the delay is \<open>undefined\<close> and \<open>shouldRetry\<close> is false already at
  retry count 0.
\<close>

theorem inherited_strategy_name_not_standard:
  "calculateRetryDelay 0 (Some (js ''constructor'')) = None \<and>
   calculateRetryDelay 0 (Some (js ''standard'')) = Some 1000 \<and>
   shouldRetry 0 (Some (js ''constructor'')) = False \<and>
   shouldRetry 0 (Some (js ''standard'')) = True"
  by (simp add: calculateRetryDelay_def shouldRetry_def strategyOrDefault_def getProp_def
      delays_def maxRetries_def objectPrototypeKeys_def js_def)

section \<open>The store in use\<close>

lemma viaStore_settled:
  "viaStore onFallback onIndexedDB w =
     (if fallbackActive w then onFallback (settled w) else onIndexedDB (settled w))"
  by (auto simp: viaStore_def settled_def initDB_def fallbackActive_def Let_def)

lemma settled_fields [simp]:
  "idbRecords (settled w) = idbRecords w"
  "fallbackQueue (settled w) = fallbackQueue w"
  "queueSettings (settled w) = queueSettings w"
  "idbKeyGen (settled w) = idbKeyGen w"
  "idbOpens (settled w) = idbOpens w"
  by (simp_all add: settled_def initDB_def)

lemma fallbackActive_settled [simp]: "fallbackActive (settled w) = fallbackActive w"
  by (auto simp: settled_def initDB_def fallbackActive_def)

lemma settled_idem [simp]: "settled (settled w) = settled w"
  by (auto simp: settled_def initDB_def)

lemma settled_update [simp]:
  "settled (w\<lparr>fallbackQueue := q\<rparr>) = (settled w)\<lparr>fallbackQueue := q\<rparr>"
  "settled (w\<lparr>idbRecords := q\<rparr>) = (settled w)\<lparr>idbRecords := q\<rparr>"
  by (simp_all add: settled_def initDB_def)

lemma fallbackActive_update [simp]:
  "fallbackActive (w\<lparr>fallbackQueue := q\<rparr>) = fallbackActive w"
  "fallbackActive (w\<lparr>idbRecords := q\<rparr>) = fallbackActive w"
  "fallbackActive (w\<lparr>idbKeyGen := k\<rparr>) = fallbackActive w"
  by (simp_all add: fallbackActive_def)

lemma activeQueue_settled [simp]: "activeQueue (settled w) = activeQueue w"
  by (simp add: activeQueue_def)

lemma stored_settled [simp]: "stored j (settled w) = stored j w"
  by (simp add: stored_def)

lemma getMaxQueueSize_settled [simp]: "getMaxQueueSize (settled w) = getMaxQueueSize w"
  by (simp add: getMaxQueueSize_def)

lemma getMaxQueueSize_update [simp]:
  "getMaxQueueSize (w\<lparr>fallbackQueue := q\<rparr>) = getMaxQueueSize w"
  "getMaxQueueSize (w\<lparr>idbRecords := q\<rparr>) = getMaxQueueSize w"
  "getMaxQueueSize (w\<lparr>idbKeyGen := k\<rparr>) = getMaxQueueSize w"
  by (simp_all add: getMaxQueueSize_def)

lemma getQueueSettings_settled [simp]: "getQueueSettings (settled w) = getQueueSettings w"
  by (simp add: getQueueSettings_def)

lemma set_sortNewestFirst [simp]: "set (sortNewestFirst items) = set items"
  by (simp add: sortNewestFirst_def)

lemma getQueue_all: "getQueue None w = (sortNewestFirst (activeQueue w), settled w)"
  by (simp add: getQueue_def viaStore_settled getQueueFallback_def filterStatus_def
      activeQueue_def)

lemma getQueueSize_eq: "getQueueSize w = (length (activeQueue w), settled w)"
  by (simp add: getQueueSize_def getQueue_all sortNewestFirst_def)

lemma checkDuplicate_eq:
  "checkDuplicate c now w = (recentDuplicate c now (activeQueue w), settled w)"
  by (simp add: checkDuplicate_def getQueue_all recentDuplicate_def list_ex_iff)

section \<open>What enqueue does, case by case\<close>

lemma enqueue_cases:
  "enqueue now freshId item w =
     (if getMaxQueueSize w \<le> length (activeQueue w)
        then (QueueFull (getMaxQueueSize w), settled w)
      else if recentDuplicate (newContent item) now (activeQueue w)
        then (DuplicateNote, settled w)
      else if fallbackActive w
        then enqueueFallback freshId (newQueueItem now item) (settled w)
      else idbAdd (newQueueItem now item) (settled w))"
  by (simp add: enqueue_def getQueueSize_eq checkDuplicate_eq viaStore_settled Let_def
      newQueueItem_def)

lemma enqueue_world:
  "snd (enqueue now freshId item w) =
     (if getMaxQueueSize w \<le> length (activeQueue w)
         \<or> recentDuplicate (newContent item) now (activeQueue w) then settled w
      else if fallbackActive w then
        (if 50 \<le> length (fallbackQueue w) then settled w
         else (settled w)\<lparr>fallbackQueue :=
                 fallbackQueue w @ [(newQueueItem now item)\<lparr>itemId := freshId\<rparr>]\<rparr>)
      else (settled w)\<lparr>idbRecords :=
              idbRecords w @ [(newQueueItem now item)\<lparr>itemId := idbKeyGen w\<rparr>],
              idbKeyGen := Suc (idbKeyGen w)\<rparr>)"
  by (simp add: enqueue_cases enqueueFallback_def idbAdd_def Let_def)

lemma enqueue_result:
  "fst (enqueue now freshId item w) =
     (if getMaxQueueSize w \<le> length (activeQueue w) then QueueFull (getMaxQueueSize w)
      else if recentDuplicate (newContent item) now (activeQueue w) then DuplicateNote
      else if fallbackActive w then
        (if 50 \<le> length (fallbackQueue w) then FallbackQueueFull else Enqueued freshId)
      else Enqueued (idbKeyGen w))"
  by (simp add: enqueue_cases enqueueFallback_def idbAdd_def Let_def)

lemma fallbackActive_enqueue [simp]:
  "fallbackActive (snd (enqueue now freshId item w)) = fallbackActive w"
  by (simp add: enqueue_world)

lemma getMaxQueueSize_enqueue [simp]:
  "getMaxQueueSize (snd (enqueue now freshId item w)) = getMaxQueueSize w"
  by (simp add: enqueue_world)




lemma enqueueAll_fallbackActive [simp]:
  "fallbackActive (enqueueAll calls w) = fallbackActive w"
  by (induction calls w rule: enqueueAll.induct) simp_all

lemma enqueueAll_getMaxQueueSize [simp]:
  "getMaxQueueSize (enqueueAll calls w) = getMaxQueueSize w"
  by (induction calls w rule: enqueueAll.induct) simp_all



section \<open>What updateItem and dequeue do to the store in use\<close>

lemma itemId_assignUpdates [simp]: "itemId (assignUpdates item u now) = itemId item"
  by (simp add: assignUpdates_def)

lemma find_itemId: "find (\<lambda>r. itemId r = i) rs = Some x \<Longrightarrow> itemId x = i"
  by (auto simp: find_Some_iff)

text \<open>Reading the record under a key and putting the patched record back is the
  fallback's replacement of the first element with the id.\<close>

lemma idb_get_put_assignFirst:
  "assignFirst i u now rs =
     (case idbGet i rs of
        None \<Rightarrow> None
      | Some item \<Rightarrow> Some (idbPut (assignUpdates item u now) rs))"
  by (induction rs) (auto simp: idbGet_def dest: find_itemId split: option.splits)

lemma find_assignFirst_same:
  "assignFirst i u now rs = Some q \<Longrightarrow>
     find (\<lambda>r. itemId r = i) q
       = map_option (\<lambda>r. assignUpdates r u now) (find (\<lambda>r. itemId r = i) rs)"
  by (induction rs arbitrary: q) (auto split: if_splits)

lemma find_assignFirst_other:
  "assignFirst i u now rs = Some q \<Longrightarrow> j \<noteq> i \<Longrightarrow>
     find (\<lambda>r. itemId r = j) q = find (\<lambda>r. itemId r = j) rs"
  by (induction rs arbitrary: q) (auto split: if_splits)

lemma assignFirst_None:
  "assignFirst i u now rs = None \<longleftrightarrow> find (\<lambda>r. itemId r = i) rs = None"
  by (induction rs) auto

lemma assignFirst_keeps:
  "assignFirst i u now rs = Some q \<Longrightarrow> x \<in> set rs \<Longrightarrow> itemId x \<noteq> i \<Longrightarrow> x \<in> set q"
  by (induction rs arbitrary: q) (auto split: if_splits)

lemma updateItem_cases:
  "updateItem i u now w =
     (case assignFirst i u now (activeQueue w) of
        None \<Rightarrow> (False, settled w)
      | Some q \<Rightarrow>
          (True, if fallbackActive w then (settled w)\<lparr>fallbackQueue := q\<rparr>
                 else (settled w)\<lparr>idbRecords := q\<rparr>))"
  using idb_get_put_assignFirst [of i u now "idbRecords w"]
  by (auto simp: updateItem_def viaStore_settled updateItemFallback_def activeQueue_def
      split: option.splits)

lemma getQueueSettings_updateItem [simp]:
  "getQueueSettings (snd (updateItem i u now w)) = getQueueSettings w"
  by (simp add: updateItem_cases getQueueSettings_def split: option.splits)

lemma activeQueue_updateItem:
  "activeQueue (snd (updateItem i u now w)) =
     (case assignFirst i u now (activeQueue w) of None \<Rightarrow> activeQueue w | Some q \<Rightarrow> q)"
  by (simp add: updateItem_cases activeQueue_def split: option.splits)

lemma stored_updateItem:
  "stored j (snd (updateItem i u now w)) =
     (if j = i then map_option (\<lambda>r. assignUpdates r u now) (stored i w) else stored j w)"
  by (auto simp: stored_def activeQueue_updateItem assignFirst_None find_assignFirst_same
      find_assignFirst_other split: option.splits)

lemma member_updateItem:
  "x \<in> set (activeQueue w) \<Longrightarrow> itemId x \<noteq> i \<Longrightarrow>
     x \<in> set (activeQueue (snd (updateItem i u now w)))"
  by (auto simp: activeQueue_updateItem assignFirst_keeps split: option.splits)

lemma dequeue_cases:
  "dequeue i w =
     (True,
      if fallbackActive w
      then (settled w)\<lparr>fallbackQueue := filter (\<lambda>item. itemId item \<noteq> i) (fallbackQueue w)\<rparr>
      else (settled w)\<lparr>idbRecords := filter (\<lambda>r. itemId r \<noteq> i) (idbRecords w)\<rparr>)"
  by (simp add: dequeue_def viaStore_settled dequeueFallback_def)

section \<open>What one invocation of the orchestrator does\<close>

lemma retryQueueItem_exhausted:
  assumes "\<not> shouldRetry (retryCount item) (retryStrategy (getQueueSettings w))"
  shows "retryQueueItem now outcome item w =
           (snd (updateItem (itemId item)
                   \<lparr>newStatus = Some Failed, newRetryCount = None,
                    newLastError = Some maxRetriesReached\<rparr> now w),
            \<lparr>delivered = [], timer = None\<rparr>)"
  using assms by (simp add: retryQueueItem_def)

lemma retryQueueItem_refused:
  assumes "shouldRetry (retryCount item) (retryStrategy (getQueueSettings w))"
  shows "retryQueueItem now (Refused message) item w =
           (snd (updateItem (itemId item)
                   \<lparr>newStatus = Some Pending, newRetryCount = Some (retryCount item + 1),
                    newLastError = Some message\<rparr> now
                   (snd (updateItem (itemId item)
                           \<lparr>newStatus = Some Retrying, newRetryCount = None,
                            newLastError = None\<rparr> now w))),
            \<lparr>delivered = [item],
             timer = Some (calculateRetryDelay (retryCount item + 1)
                             (retryStrategy (getQueueSettings w)), item)\<rparr>)"
  using assms by (simp add: retryQueueItem_def Let_def)

text \<open>
  A refused delivery writes the count of the item that was passed, plus one, whatever
  count the store holds; and the timer passes the same item again.
\<close>

lemma refused_writes_passed_count:
  assumes "shouldRetry (retryCount item) (retryStrategy (getQueueSettings w))"
    and "stored (itemId item) w = Some r"
  shows "stored (itemId item) (fst (retryQueueItem now (Refused message) item w))
           = Some (r\<lparr>status := Pending, retryCount := retryCount item + 1,
                     lastError := message, updatedAt := now\<rparr>) \<and>
         timer (snd (retryQueueItem now (Refused message) item w))
           = Some (calculateRetryDelay (retryCount item + 1)
                     (retryStrategy (getQueueSettings w)), item)"
  using assms
  by (simp add: retryQueueItem_refused stored_updateItem assignUpdates_def)

lemma stored_retryQueueItem_other:
  "j \<noteq> itemId item \<Longrightarrow> stored j (fst (retryQueueItem now outcome item w)) = stored j w"
  by (cases outcome) (simp_all add: retryQueueItem_def Let_def stored_updateItem)

lemma member_retryQueueItem:
  "x \<in> set (activeQueue w) \<Longrightarrow> itemId x \<noteq> itemId item \<Longrightarrow>
     x \<in> set (activeQueue (fst (retryQueueItem now outcome item w)))"
  by (cases outcome) (simp_all add: retryQueueItem_def Let_def member_updateItem)

lemma delivered_retryQueueItem:
  "set (delivered (snd (retryQueueItem now outcome item w))) \<subseteq> {item}"
  by (cases outcome) (simp_all add: retryQueueItem_def Let_def)

lemma getQueueSettings_retryQueueItem [simp]:
  "getQueueSettings (fst (retryQueueItem now outcome item w)) = getQueueSettings w"
  by (cases outcome) (simp_all add: retryQueueItem_def Let_def)

text \<open>
  However many refusals follow one another through the timer, the store holds the count
  of the item first passed, plus one.
\<close>

lemma retryChain_refused:
  assumes "shouldRetry (retryCount item) (retryStrategy (getQueueSettings w))"
  shows "retryChain ((now, Refused message) # rest) item w
           = retryChain rest item (fst (retryQueueItem now (Refused message) item w))"
  using assms by (simp add: retryQueueItem_refused)

lemma refusals_store_one_count:
  assumes "shouldRetry (retryCount item) (retryStrategy (getQueueSettings w))"
    and "stored (itemId item) w = Some r"
    and "firings \<noteq> []"
    and "\<forall>f \<in> set firings. \<exists>message. snd f = Refused message"
  shows "map_option retryCount (stored (itemId item) (retryChain firings item w))
           = Some (retryCount item + 1)"
  using assms
proof (induction firings arbitrary: w r)
  case Nil
  then show ?case by simp
next
  case (Cons firing rest)
  obtain now message where firing: "firing = (now, Refused message)"
    using Cons.prems(4) by (cases firing) auto
  let ?w1 = "fst (retryQueueItem now (Refused message) item w)"
  have step: "stored (itemId item) ?w1
                = Some (r\<lparr>status := Pending, retryCount := retryCount item + 1,
                          lastError := message, updatedAt := now\<rparr>)"
    using refused_writes_passed_count [OF Cons.prems(1,2)] by simp
  have chain: "retryChain (firing # rest) item w = retryChain rest item ?w1"
    using retryChain_refused [OF Cons.prems(1)] by (simp add: firing)
  show ?case
  proof (cases "rest = []")
    case True
    then show ?thesis using step chain by simp
  next
    case False
    have "shouldRetry (retryCount item) (retryStrategy (getQueueSettings ?w1))"
      using Cons.prems(1) by simp
    moreover have "\<forall>f \<in> set rest. \<exists>message. snd f = Refused message"
      using Cons.prems(4) by simp
    ultimately have "map_option retryCount (stored (itemId item) (retryChain rest item ?w1))
                       = Some (retryCount item + 1)"
      using Cons.IH [OF _ step False] by blast
    then show ?thesis using chain by simp
  qed
qed

section \<open>What a driver pass does\<close>

lemma retryEach_Cons:
  "fst (retryEach now deliver (item # items) w)
     = fst (retryEach now deliver items (fst (retryQueueItem now (deliver item) item w)))"
  "snd (retryEach now deliver (item # items) w)
     = snd (retryQueueItem now (deliver item) item w)
       # snd (retryEach now deliver items (fst (retryQueueItem now (deliver item) item w)))"
  by (simp_all split: prod.splits)

lemma retryEach_keeps:
  "x \<in> set (activeQueue w) \<Longrightarrow> \<forall>y \<in> set items. itemId y \<noteq> itemId x \<Longrightarrow>
     x \<in> set (activeQueue (fst (retryEach now deliver items w)))"
proof (induction items arbitrary: w)
  case Nil
  then show ?case by simp
next
  case (Cons item items)
  have "x \<in> set (activeQueue (fst (retryQueueItem now (deliver item) item w)))"
    using member_retryQueueItem [of x w item now "deliver item"] Cons.prems by simp
  moreover have "\<forall>y \<in> set items. itemId y \<noteq> itemId x"
    using Cons.prems by simp
  ultimately show ?case
    using Cons.IH by (simp only: retryEach_Cons)
qed

lemma retryEach_stored:
  "\<forall>y \<in> set items. itemId y \<noteq> j \<Longrightarrow>
     stored j (fst (retryEach now deliver items w)) = stored j w"
proof (induction items arbitrary: w)
  case Nil
  then show ?case by simp
next
  case (Cons item items)
  have "stored j (fst (retryQueueItem now (deliver item) item w)) = stored j w"
    using stored_retryQueueItem_other [of j item now "deliver item" w] Cons.prems by simp
  moreover have "\<forall>y \<in> set items. itemId y \<noteq> j"
    using Cons.prems by simp
  ultimately show ?case
    using Cons.IH by (simp only: retryEach_Cons)
qed

lemma retryEach_attempted:
  "set (attempted (snd (retryEach now deliver items w))) \<subseteq> set items"
proof (induction items arbitrary: w)
  case Nil
  then show ?case by (simp add: attempted_def)
next
  case (Cons item items)
  have "set (delivered (snd (retryQueueItem now (deliver item) item w))) \<subseteq> {item}"
    by (rule delivered_retryQueueItem)
  moreover have "set (attempted (snd (retryEach now deliver items
                   (fst (retryQueueItem now (deliver item) item w))))) \<subseteq> set items"
    by (rule Cons.IH)
  ultimately show ?case
    unfolding retryEach_Cons attempted_def by auto
qed

lemma processQueueOnStartup_eq:
  "processQueueOnStartup now deliver w =
     retryEach now deliver
       (filter (\<lambda>item. status item = Pending \<or> status item = Retrying)
          (sortNewestFirst (activeQueue w))) (settled w)"
  by (simp add: processQueueOnStartup_def getQueue_all)

lemma stored_distinct:
  "distinct (map itemId items) \<Longrightarrow> x \<in> set items \<Longrightarrow>
     find (\<lambda>r. itemId r = itemId x) items = Some x"
  by (induction items) (auto simp: rev_image_eqI)

section \<open>The concrete states, written out\<close>

lemmas queue_defs = enqueue_def getQueueSize_def getQueue_def viaStore_def initDB_def
  filterStatus_def sortNewestFirst_def getMaxQueueSize_def DEFAULT_MAX_QUEUE_SIZE_def
  checkDuplicate_def noteOf_def idbAdd_def settingsWith_def Let_def

lemmas run_defs = retryQueueItem_def updateItem_def viaStore_def initDB_def
  getQueueSettings_def shouldRetry_def calculateRetryDelay_def strategyOrDefault_def
  getProp_def maxRetries_def delays_def objectPrototypeKeys_def js_def idbGet_def
  assignUpdates_def stored_def activeQueue_def fallbackActive_def Let_def

lemmas pass_defs = refusedPass_def processQueueOnStartup_def getQueue_def filterStatus_def
  sortNewestFirst_def alwaysRefused_def refusal_def

lemma worldX_eq:
  "worldX =
     \<lparr>idbOpens = True, db = True, useFallback = False, idbRecords = [queuedX],
      idbKeyGen = 2, fallbackQueue = [], queueSettings = None\<rparr>"
  by (simp add: worldX_def emptyWorld_def queuedX_def queue_defs)

lemma conservativeWorld_eq:
  "conservativeWorld =
     \<lparr>idbOpens = True, db = True, useFallback = False, idbRecords = [queuedX],
      idbKeyGen = 2, fallbackQueue = [],
      queueSettings = Some (settingsWith 100 ''conservative'')\<rparr>"
  by (simp add: conservativeWorld_def emptyWorld_def queuedX_def queue_defs)

lemma smallWorld_eq:
  "smallWorld =
     \<lparr>idbOpens = True, db = True, useFallback = False, idbRecords = [queuedX],
      idbKeyGen = 2, fallbackQueue = [],
      queueSettings = Some (settingsWith 1 ''standard'')\<rparr>"
  by (simp add: smallWorld_def emptyWorld_def queuedX_def queue_defs)

lemma thriceRefused_eq:
  "thriceRefused =
     \<lparr>idbOpens = True, db = True, useFallback = False, idbRecords = [thriceX],
      idbKeyGen = 2, fallbackQueue = [],
      queueSettings = Some (settingsWith 100 ''conservative'')\<rparr>"
  by (simp add: thriceRefused_def thriceX_def conservativeWorld_eq queuedX_def settingsWith_def
      pass_defs run_defs)

lemma worldDone_eq:
  "worldDone =
     \<lparr>idbOpens = True, db = True, useFallback = False, idbRecords = [doneX],
      idbKeyGen = 2, fallbackQueue = [], queueSettings = None\<rparr>"
  by (simp add: worldDone_def worldX_eq queuedX_def doneX_def run_defs)

lemma worldTwo_eq:
  "worldTwo =
     \<lparr>idbOpens = True, db = True, useFallback = False,
      idbRecords = [doneX, queuedX\<lparr>itemId := 2, content := js ''y'', createdAt := 5000,
                                   updatedAt := 5000\<rparr>],
      idbKeyGen = 3, fallbackQueue = [], queueSettings = None\<rparr>"
  by (simp add: worldTwo_def worldDone_eq queuedX_def doneX_def js_def queue_defs)




section \<open>Properties of the queue manager\<close>




text \<open>
  C7. A note whose content is the content of a queued item created less than five
  minutes ago is rejected and adds nothing: with the duplicate message when the queue is
  below \<open>maxSize\<close>, with the queue-full message otherwise, since the size is checked
  first. When every queued item with that content was created five minutes ago or
  earlier, and the queue is below \<open>maxSize\<close> (and below 50 under the fallback store), the
  note is stored as a new pending item at the end of the store.
\<close>

theorem duplicate_window:
  "(x \<in> set (activeQueue w) \<and> content x = newContent item \<and>
    now - createdAt x < 5 * 60 * 1000 \<longrightarrow>
      fst (enqueue now freshId item w) =
        (if getMaxQueueSize w \<le> length (activeQueue w) then QueueFull (getMaxQueueSize w)
         else DuplicateNote) \<and>
      idbRecords (snd (enqueue now freshId item w)) = idbRecords w \<and>
      fallbackQueue (snd (enqueue now freshId item w)) = fallbackQueue w) \<and>
   ((\<forall>y \<in> set (activeQueue w).
        content y = newContent item \<longrightarrow> 5 * 60 * 1000 \<le> now - createdAt y) \<and>
    length (activeQueue w) < getMaxQueueSize w \<and>
    (fallbackActive w \<longrightarrow> length (activeQueue w) < 50) \<longrightarrow>
      (\<exists>i. fst (enqueue now freshId item w) = Enqueued i \<and>
           activeQueue (snd (enqueue now freshId item w))
             = activeQueue w @ [(newQueueItem now item)\<lparr>itemId := i\<rparr>]))"
proof -
  have dup: "recentDuplicate (newContent item) now (activeQueue w)"
    if "x \<in> set (activeQueue w)" "content x = newContent item"
      "now - createdAt x < 5 * 60 * 1000"
    using that by (auto simp: recentDuplicate_def list_ex_iff)
  have nodup: "\<not> recentDuplicate (newContent item) now (activeQueue w)"
    if "\<forall>y \<in> set (activeQueue w).
          content y = newContent item \<longrightarrow> 5 * 60 * 1000 \<le> now - createdAt y"
    using that by (auto simp: recentDuplicate_def list_ex_iff)
  show ?thesis
    using dup nodup
    by (auto simp: enqueue_result enqueue_world activeQueue_def)
qed

theorem duplicate_window_witness:
  "queuedX \<in> set (activeQueue worldX) \<and> content queuedX = newContent (noteOf (js ''x'')) \<and>
   2000 - createdAt queuedX < 5 * 60 * 1000 \<and>
   fst (enqueue 2000 0 (noteOf (js ''x'')) worldX) = DuplicateNote \<and>
   idbRecords (snd (enqueue 2000 0 (noteOf (js ''x'')) worldX)) = idbRecords worldX \<and>
   5 * 60 * 1000 \<le> 301000 - createdAt queuedX \<and>
   length (activeQueue worldX) < getMaxQueueSize worldX \<and> \<not> fallbackActive worldX \<and>
   fst (enqueue 301000 0 (noteOf (js ''x'')) worldX) = Enqueued 2 \<and>
   activeQueue (snd (enqueue 301000 0 (noteOf (js ''x'')) worldX))
     = activeQueue worldX @ [(newQueueItem 301000 (noteOf (js ''x'')))\<lparr>itemId := 2\<rparr>]"
proof -
  have q: "activeQueue worldX = [queuedX]" "\<not> fallbackActive worldX"
    "getMaxQueueSize worldX = 100" "idbKeyGen worldX = 2"
    by (simp_all add: worldX_eq activeQueue_def fallbackActive_def getMaxQueueSize_def
        DEFAULT_MAX_QUEUE_SIZE_def)
  have c: "content queuedX = newContent (noteOf (js ''x''))" "createdAt queuedX = 1000"
    by (simp_all add: queuedX_def noteOf_def)
  have late: "\<forall>y \<in> set (activeQueue worldX). content y = newContent (noteOf (js ''x''))
                \<longrightarrow> 5 * 60 * 1000 \<le> 301000 - createdAt y"
    by (simp add: q c)
  have key: "fst (enqueue 301000 0 (noteOf (js ''x'')) worldX) = Enqueued 2"
    using late by (simp add: enqueue_result q recentDuplicate_def c)
  show ?thesis
    using duplicate_window [of queuedX worldX "noteOf (js ''x'')" 2000 0]
      duplicate_window [of queuedX worldX "noteOf (js ''x'')" 301000 0] late key
    by (simp add: q c)
qed

text \<open>
  With a limit of one item and the note \<open>x\<close> queued a second ago, the same content is
  turned away with the queue-full message, not the duplicate message.
\<close>

theorem duplicate_window_counterexample:
  "queuedX \<in> set (activeQueue smallWorld) \<and>
   content queuedX = newContent (noteOf (js ''x'')) \<and>
   2000 - createdAt queuedX < 5 * 60 * 1000 \<and>
   fst (enqueue 2000 0 (noteOf (js ''x'')) smallWorld) = QueueFull 1"
  by (simp add: smallWorld_eq activeQueue_def fallbackActive_def queuedX_def noteOf_def
      enqueue_result getMaxQueueSize_def settingsWith_def)

text \<open>
  C8. The check for empty content is made by \<open>createNote\<close>, the caller of \<open>enqueue\<close>,
  and not by \<open>enqueue\<close>: for a content that is empty or only white space, \<open>createNote\<close>
  returns an error at once (the empty-content error, or the missing-configuration error
  when the URL or the token is not set), whatever the network would have answered, and
  leaves the stores and the module state as they were.
\<close>

theorem createNote_rejects_empty:
  assumes "c = [] \<or> trim c = []"
  shows "fst (createNote apiUrl token c ty md outcome now freshId w)
           = (if apiUrl = [] \<or> token = [] then NoBlinkoConfig else EmptyContent) \<and>
         snd (createNote apiUrl token c ty md outcome now freshId w) = w"
proof (cases "apiUrl = [] \<or> token = []")
  case True
  then show ?thesis by (simp add: createNote_def Let_def)
next
  case False
  with assms show ?thesis by (simp add: createNote_def Let_def)
qed

theorem createNote_rejects_empty_witness:
  "trim (js ''  '') = [] \<and>
   createNote (js ''https://blinko.example'') (js ''token'') (js ''  '') 0 []
     (FetchThrows (js ''offline'')) 1000 0 emptyWorld = (EmptyContent, emptyWorld) \<and>
   createNote (js ''https://blinko.example'') (js ''token'') [] 0 []
     (FetchThrows (js ''offline'')) 1000 0 emptyWorld = (EmptyContent, emptyWorld)"
proof -
  have t: "trim (js ''  '') = []"
    by (simp add: trim_def js_def isWhiteSpace_def)
  have u: "js ''https://blinko.example'' \<noteq> []" "js ''token'' \<noteq> []"
    by (simp_all add: js_def)
  show ?thesis
    using createNote_rejects_empty [of "js ''  ''" "js ''https://blinko.example''"
        "js ''token''" 0 "[]" "FetchThrows (js ''offline'')" 1000 0 emptyWorld]
      createNote_rejects_empty [of "[]" "js ''https://blinko.example''" "js ''token''"
        0 "[]" "FetchThrows (js ''offline'')" 1000 0 emptyWorld] t u
    by (simp add: prod_eq_iff)
qed

text \<open>\<open>enqueue\<close> itself stores a note with empty content like any other note.\<close>

theorem enqueue_accepts_empty_content:
  "newContent (noteOf []) = [] \<and>
   fst (enqueue 1000 0 (noteOf []) emptyWorld) = Enqueued 1 \<and>
   map content (activeQueue (snd (enqueue 1000 0 (noteOf []) emptyWorld))) = [[]]"
  by (simp add: emptyWorld_def activeQueue_def fallbackActive_def queue_defs)

text \<open>
  C9. \<open>dequeue i\<close> removes every record with the id \<open>i\<close> from the store in use and
  keeps the others in their order; a second call changes nothing more; and it returns
  true both when a record was there and when none was.
\<close>

theorem dequeue_deletes:
  "fst (dequeue i w) = True \<and>
   activeQueue (snd (dequeue i w)) = filter (\<lambda>item. itemId item \<noteq> i) (activeQueue w) \<and>
   stored i (snd (dequeue i w)) = None \<and>
   snd (dequeue i (snd (dequeue i w))) = snd (dequeue i w)"
  by (auto simp: dequeue_cases activeQueue_def stored_def find_None_iff)

theorem dequeue_deletes_witness:
  "stored 1 worldX = Some queuedX \<and> fst (dequeue 1 worldX) = True \<and>
   activeQueue (snd (dequeue 1 worldX)) = [] \<and> stored 1 (snd (dequeue 1 worldX)) = None \<and>
   fst (dequeue 1 (snd (dequeue 1 worldX))) = True \<and>
   snd (dequeue 1 (snd (dequeue 1 worldX))) = snd (dequeue 1 worldX)"
proof -
  have q: "activeQueue worldX = [queuedX]" "itemId queuedX = 1"
    by (simp_all add: worldX_eq activeQueue_def fallbackActive_def queuedX_def)
  show ?thesis
    using dequeue_deletes [of 1 worldX] dequeue_deletes [of 1 "snd (dequeue 1 worldX)"]
    by (simp add: q stored_def)
qed

text \<open>On a store with no record under the id 7, \<open>dequeue 7\<close> returns true.\<close>

theorem dequeue_missing_returns_true:
  "stored 7 emptyWorld = None \<and> fst (dequeue 7 emptyWorld) = True"
  by (simp add: stored_def activeQueue_def fallbackActive_def emptyWorld_def dequeue_def
      viaStore_def initDB_def Let_def)

section \<open>Properties of the retry orchestrator\<close>

text \<open>
  C1. The stored \<open>retryCount\<close> is meant to count the refused deliveries of an item. It
  does not: the timer set after a refusal passes the item object of the first
  invocation again, whose \<open>retryCount\<close> no write ever changes, so every later refusal
  writes the same count (lemma \<open>refusals_store_one_count\<close>). After one, two and
  three refusals in a row the store holds 1; and when a pass over a fresh snapshot has
  raised the stored count to 2, the next firing of the older timer writes 1 again.
\<close>

theorem stale_item_retry_count:
  "stored 1 worldX = Some queuedX \<and>
   map_option retryCount (stored 1 (retryChain [(2000, refusal)] queuedX worldX)) = Some 1 \<and>
   map_option retryCount
     (stored 1 (retryChain [(2000, refusal), (4000, refusal)] queuedX worldX)) = Some 1 \<and>
   map_option retryCount
     (stored 1 (retryChain [(2000, refusal), (4000, refusal), (8000, refusal)] queuedX worldX))
     = Some 1 \<and>
   stored 1 (fst (retryQueueItem 2000 refusal queuedX worldX)) = Some retriedX \<and>
   map_option retryCount
     (stored 1 (fst (retryQueueItem 3000 refusal retriedX
                       (fst (retryQueueItem 2000 refusal queuedX worldX))))) = Some 2 \<and>
   map_option retryCount
     (stored 1 (fst (retryQueueItem 4000 refusal queuedX
                       (fst (retryQueueItem 3000 refusal retriedX
                               (fst (retryQueueItem 2000 refusal queuedX worldX)))))))
     = Some 1"
  by (simp add: worldX_eq queuedX_def retriedX_def refusal_def run_defs)

text \<open>
  The driver path has a gate on the status: \<open>processQueueOnStartup\<close> hands over only
  the items of its snapshot that are pending or retrying. So, ids being distinct, a
  driver pass leaves the stored record of every terminal item as it was and attempts no
  delivery for a terminal item.
\<close>

lemma driver_skips_terminal_items:
  assumes "x \<in> set (activeQueue w)" and "isTerminal x"
    and "distinct (map itemId (activeQueue w))"
  shows "stored (itemId x) (fst (processQueueOnStartup now deliver w)) = Some x \<and>
         x \<in> set (activeQueue (fst (processQueueOnStartup now deliver w))) \<and>
         \<not> list_ex isTerminal (attempted (snd (processQueueOnStartup now deliver w)))"
proof -
  let ?pending = "filter (\<lambda>item. status item = Pending \<or> status item = Retrying)
                    (sortNewestFirst (activeQueue w))"
  have other: "\<forall>y \<in> set ?pending. itemId y \<noteq> itemId x"
  proof
    fix y assume y: "y \<in> set ?pending"
    then have "y \<in> set (activeQueue w)" and "\<not> isTerminal y"
      by (auto simp: isTerminal_def)
    with assms have "y \<noteq> x" by auto
    with assms(1,3) \<open>y \<in> set (activeQueue w)\<close> show "itemId y \<noteq> itemId x"
      by (meson distinct_map inj_on_def)
  qed
  have "stored (itemId x) w = Some x"
    using stored_distinct [OF assms(3) assms(1)] by (simp add: stored_def)
  then have a: "stored (itemId x) (fst (processQueueOnStartup now deliver w)) = Some x"
    using retryEach_stored [OF other, of now deliver "settled w"]
    by (simp add: processQueueOnStartup_eq)
  have b: "x \<in> set (activeQueue (fst (processQueueOnStartup now deliver w)))"
    using retryEach_keeps [of x "settled w" ?pending now deliver] assms(1) other
    by (simp add: processQueueOnStartup_eq)
  have "set (attempted (snd (processQueueOnStartup now deliver w))) \<subseteq> set ?pending"
    using retryEach_attempted [of now deliver ?pending "settled w"]
    by (simp add: processQueueOnStartup_eq)
  then have c: "\<not> list_ex isTerminal (attempted (snd (processQueueOnStartup now deliver w)))"
    by (auto simp: list_ex_iff isTerminal_def)
  from a b c show ?thesis by blast
qed

lemma driver_skips_terminal_items_example:
  "doneX \<in> set (activeQueue worldTwo) \<and> isTerminal doneX \<and>
   distinct (map itemId (activeQueue worldTwo)) \<and>
   stored 1 (fst (processQueueOnStartup 9000 alwaysRefused worldTwo)) = Some doneX \<and>
   map_option retryCount (stored 2 (fst (processQueueOnStartup 9000 alwaysRefused worldTwo)))
     = Some 1"
proof -
  have h1: "doneX \<in> set (activeQueue worldTwo)"
    by (simp add: worldTwo_eq activeQueue_def fallbackActive_def)
  have h2: "isTerminal doneX"
    by (simp add: isTerminal_def doneX_def)
  have h3: "distinct (map itemId (activeQueue worldTwo))"
    by (simp add: worldTwo_eq activeQueue_def fallbackActive_def doneX_def queuedX_def)
  have "itemId doneX = 1" by (simp add: doneX_def queuedX_def)
  then have "stored 1 (fst (processQueueOnStartup 9000 alwaysRefused worldTwo)) = Some doneX"
    using driver_skips_terminal_items [OF h1 h2 h3, of 9000 alwaysRefused] by simp
  moreover have "map_option retryCount
      (stored 2 (fst (processQueueOnStartup 9000 alwaysRefused worldTwo))) = Some 1"
    by (simp add: worldTwo_eq queuedX_def doneX_def pass_defs run_defs)
  ultimately show ?thesis using h1 h2 h3 by blast
qed

text \<open>
  The orchestrator itself never reads a status: what it writes does not depend on the
  status of the item it is given.
\<close>

lemma retryQueueItem_ignores_status:
  "fst (retryQueueItem now outcome (item\<lparr>status := s\<rparr>) w)
     = fst (retryQueueItem now outcome item w)"
  by (cases outcome) (simp_all add: retryQueueItem_def Let_def)

lemma refusedOnce_eq:
  "refusedOnce =
     \<lparr>idbOpens = True, db = True, useFallback = False, idbRecords = [retriedX],
      idbKeyGen = 2, fallbackQueue = [], queueSettings = None\<rparr>"
  by (simp add: refusedOnce_def worldX_eq queuedX_def retriedX_def pass_defs run_defs)

lemma deliveredLater_eq:
  "deliveredLater =
     \<lparr>idbOpens = True, db = True, useFallback = False, idbRecords = [deliveredX],
      idbKeyGen = 2, fallbackQueue = [], queueSettings = None\<rparr>"
  by (simp add: deliveredLater_def refusedOnce_eq queuedX_def retriedX_def deliveredX_def
      alwaysDelivered_def pass_defs run_defs)

text \<open>
  C2. An invocation of the orchestrator on an item whose status is terminal is meant
  to change nothing and to deliver nothing. The timer path does not keep to it. A driver
  pass at time 2000 is refused and sets a timer of 2000 ms that holds the item object of
  that pass; a second driver pass at time 3000 delivers the note and stores the status
  success; when the timer fires at time 4000 the orchestrator, which looks at no status,
  delivers the note again and, the delivery being refused, writes the stored record back
  to pending with the refusal as its \<open>lastError\<close>.
\<close>

theorem stale_timer_retries_terminal_item:
  "map timer (snd (processQueueOnStartup 2000 alwaysRefused worldX))
     = [Some (Some 2000, queuedX)] \<and>
   stored 1 deliveredLater = Some deliveredX \<and> isTerminal deliveredX \<and>
   delivered (snd (retryQueueItem 4000 refusal queuedX deliveredLater)) = [queuedX] \<and>
   map_option status (stored 1 (fst (retryQueueItem 4000 refusal queuedX deliveredLater)))
     = Some Pending \<and>
   map_option lastError (stored 1 (fst (retryQueueItem 4000 refusal queuedX deliveredLater)))
     = Some (js ''HTTP 500'') \<and>
   delivered (snd (retryQueueItem 4000 Delivered queuedX deliveredLater)) = [queuedX]"
  by (simp add: deliveredLater_eq worldX_eq isTerminal_def queuedX_def retriedX_def
      deliveredX_def pass_defs run_defs)

text \<open>
  C3. When \<open>shouldRetry\<close> is false for the count of the item given to the orchestrator
  and the store holds a record under the item's id, the invocation sets that record's
  status to failed and its \<open>lastError\<close> to the literal of the source (eight CJK
  characters, \<open>maxRetriesReached\<close>), refreshes \<open>updatedAt\<close>, leaves the other fields
  (the stored \<open>retryCount\<close> among them) as they were, calls no delivery and sets no
  timer.
\<close>

theorem retries_exhausted:
  assumes "\<not> shouldRetry (retryCount item) (retryStrategy (getQueueSettings w))"
    and "stored (itemId item) w = Some r"
  shows "delivered (snd (retryQueueItem now outcome item w)) = [] \<and>
         timer (snd (retryQueueItem now outcome item w)) = None \<and>
         stored (itemId item) (fst (retryQueueItem now outcome item w))
           = Some (r\<lparr>status := Failed, lastError := maxRetriesReached, updatedAt := now\<rparr>)"
  using assms
  by (simp add: retryQueueItem_exhausted stored_updateItem assignUpdates_def)

theorem retries_exhausted_witness:
  "\<not> shouldRetry (retryCount thriceX) (retryStrategy (getQueueSettings thriceRefused)) \<and>
   stored (itemId thriceX) thriceRefused = Some thriceX \<and>
   delivered (snd (retryQueueItem 12000 refusal thriceX thriceRefused)) = [] \<and>
   timer (snd (retryQueueItem 12000 refusal thriceX thriceRefused)) = None \<and>
   stored (itemId thriceX) (fst (retryQueueItem 12000 refusal thriceX thriceRefused))
     = Some (thriceX\<lparr>status := Failed, lastError := maxRetriesReached, updatedAt := 12000\<rparr>)"
proof -
  have h1: "\<not> shouldRetry (retryCount thriceX)
               (retryStrategy (getQueueSettings thriceRefused))"
    by (simp add: thriceRefused_eq thriceX_def queuedX_def settingsWith_def run_defs)
  have h2: "stored (itemId thriceX) thriceRefused = Some thriceX"
    by (simp add: thriceRefused_eq thriceX_def queuedX_def run_defs)
  from retries_exhausted [OF h1 h2, of 12000 refusal] h1 h2 show ?thesis
    by blast
qed

text \<open>
  Under the conservative strategy, four invocations in a row through the timer, each
  refused, leave the item pending with a stored count of 1. Four driver passes over
  fresh snapshots do end in failed, and the \<open>lastError\<close> then stored is the literal of
  the source, not the English sentence.
\<close>

theorem retries_exhausted_counterexample:
  "map_option status
     (stored 1 (retryChain [(2000, refusal), (4000, refusal), (8000, refusal), (12000, refusal)]
                  queuedX conservativeWorld)) = Some Pending \<and>
   map_option retryCount
     (stored 1 (retryChain [(2000, refusal), (4000, refusal), (8000, refusal), (12000, refusal)]
                  queuedX conservativeWorld)) = Some 1 \<and>
   map_option status (stored 1 (refusedPass 12000 thriceRefused)) = Some Failed \<and>
   map_option lastError (stored 1 (refusedPass 12000 thriceRefused)) = Some maxRetriesReached \<and>
   maxRetriesReached \<noteq> js ''max retries reached''"
  by (simp add: thriceRefused_eq thriceX_def conservativeWorld_eq queuedX_def settingsWith_def
      maxRetriesReached_def pass_defs run_defs)

end
